theory Spec2Isabelle
  imports Complex_Main
begin

section \<open>Python values and exceptions\<close>

text \<open>
  Scalars that travel through the search layer as identifiers, scores, filter values and
  payload attributes. Floats are only passed along, never computed with, so they are
  carried as reals. A raised exception is a value: its class name and its message.
\<close>

type_synonym py_float = real

datatype py_value = PyNone | PyBool bool | PyInt int | PyFloat py_float | PyStr string

datatype py_exception = PyException string string

section \<open>The vector store client (qdrant\_client)\<close>

text \<open>
  \<open>models.MatchValue\<close>, \<open>models.FieldCondition\<close> and \<open>models.Filter\<close> are the
  filter objects of the client library: \<open>MatchValue v\<close> is the equality match on \<open>v\<close>,
  \<open>FieldCondition k m\<close> applies a match to the payload key \<open>k\<close>, and \<open>Filter must\<close>
  holds when every condition of \<open>must\<close> holds.
\<close>

datatype match_value = MatchValue py_value

datatype field_condition = FieldCondition (key: string) (match_of: match_value)

datatype qdrant_filter = Filter (must: "field_condition list")

text \<open>
  The library's models are pydantic models, whose constructors take keyword arguments
  only. A call with a positional argument, as \<open>models.MatchValue(v)\<close> in the source,
  raises TypeError and builds nothing (the message is the one of pydantic 2).
\<close>

definition positional_argument_error :: py_exception where
  "positional_argument_error =
     PyException ''TypeError''
       ''BaseModel.__init__() takes 1 positional argument but 2 were given''"

definition MatchValue_positional :: "py_value \<Rightarrow> py_exception + match_value" where
  "MatchValue_positional v = Inl positional_argument_error"

text \<open>The keyword arguments of one call of \<open>client.search\<close>.\<close>

record search_request =
  collection_name :: string
  query_vector :: "py_float list"
  limit :: int
  query_filter :: "qdrant_filter option"

text \<open>A raw hit of the store: \<open>r.id\<close>, \<open>r.score\<close> and \<open>r.payload\<close> (a dict or None).\<close>

record scored_point =
  point_id :: py_value
  score :: py_float
  payload :: "(string \<rightharpoonup> py_value) option"

text \<open>
  The client is an external collaborator, so it is a parameter: its \<open>search\<close> method
  reads (and may change) a store state \<open>'s\<close> and either raises or returns the ranked hits.
\<close>

record 's qdrant_client =
  search :: "search_request \<Rightarrow> 's \<Rightarrow> (py_exception + scored_point list) \<times> 's"

text \<open>
  The world a search call runs in: the state of the vector store and the log of the
  round trips made to it, oldest first.
\<close>

record 's world =
  store :: 's
  round_trips :: "search_request list"

definition client_search ::
  "'s qdrant_client \<Rightarrow> search_request \<Rightarrow> 's world \<Rightarrow> (py_exception + scored_point list) \<times> 's world" where
  "client_search c req w =
     (case search c req (store w) of
        (res, s') \<Rightarrow> (res, \<lparr>store = s', round_trips = round_trips w @ [req]\<rparr>))"

text \<open>The round trips made between the world \<open>w\<close> and the later world \<open>w'\<close>.\<close>

definition new_round_trips :: "'s world \<Rightarrow> 's world \<Rightarrow> search_request list" where
  "new_round_trips w w' = drop (length (round_trips w)) (round_trips w')"

section \<open>BaseSearchStrategy (base\_search\_strategy.py)\<close>

record 's base_search_strategy =
  client :: "'s qdrant_client"

definition COLLECTION_MAP :: "(string \<times> string) list" where
  "COLLECTION_MAP =
     [(''match_archon_crawled_pages'', ''docs''),
      (''match_archon_code_examples'', ''code'')]"

text \<open>\<open>d.get(k, default)\<close> on a dict given by its items.\<close>

definition dict_get :: "(string \<times> 'v) list \<Rightarrow> string \<Rightarrow> 'v \<Rightarrow> 'v" where
  "dict_get d k dflt = (case map_of d k of Some v \<Rightarrow> v | None \<Rightarrow> dflt)"

text \<open>
  The comprehension building \<open>must\<close>, over the items of \<open>filter_metadata\<close> in the order
  of \<open>items()\<close>: for each item it calls \<open>models.MatchValue(v)\<close> positionally and then
  \<open>models.FieldCondition\<close> with keywords. The first exception ends the comprehension.
\<close>

fun build_must :: "(string \<times> py_value) list \<Rightarrow> py_exception + field_condition list" where
  "build_must [] = Inr []"
| "build_must ((k, v) # items) =
     (case MatchValue_positional v of
        Inl e \<Rightarrow> Inl e
      | Inr m \<Rightarrow>
          (case build_must items of
             Inl e \<Rightarrow> Inl e
           | Inr conditions \<Rightarrow> Inr (FieldCondition k m # conditions)))"

text \<open>
  \<open>if filter_metadata:\<close> is Python truthiness: None and the empty dict both leave
  \<open>query_filter\<close> at None; any other dict goes through the comprehension.
\<close>

definition build_query_filter ::
  "(string \<times> py_value) list option \<Rightarrow> py_exception + qdrant_filter option" where
  "build_query_filter filter_metadata =
     (case filter_metadata of
        None \<Rightarrow> Inr None
      | Some items \<Rightarrow>
          (if items = [] then Inr None
           else (case build_must items of
                   Inl e \<Rightarrow> Inl e
                 | Inr conditions \<Rightarrow> Inr (Some (Filter conditions)))))"

text \<open>
  One element of the returned list: \<open>{"id": r.id, "score": r.score, **(r.payload or {})}\<close>.
  The payload is unpacked last, so its entries win over the two keys written before it.
\<close>

definition flatten_hit :: "scored_point \<Rightarrow> (string \<rightharpoonup> py_value)" where
  "flatten_hit r =
     [''id'' \<mapsto> point_id r, ''score'' \<mapsto> PyFloat (score r)]
       ++ (case payload r of None \<Rightarrow> Map.empty | Some p \<Rightarrow> p)"

text \<open>
  The request of lines 50 to 55: the collection is the alias looked up in the table, with
  the alias itself as the default. The source checks none of its arguments.
\<close>

definition search_request_of ::
  "py_float list \<Rightarrow> int \<Rightarrow> qdrant_filter option \<Rightarrow> string \<Rightarrow> search_request" where
  "search_request_of query_embedding match_count qf table_rpc =
     \<lparr>collection_name = dict_get COLLECTION_MAP table_rpc table_rpc,
      query_vector = query_embedding,
      limit = match_count,
      query_filter = qf\<rparr>"

text \<open>
  An exception raised while the filter is built leaves \<open>vector_search\<close> before
  \<open>client.search\<close> is called, so no round trip is made then.
\<close>

definition vector_search ::
  "'s base_search_strategy \<Rightarrow> py_float list \<Rightarrow> int \<Rightarrow> (string \<times> py_value) list option \<Rightarrow> string
     \<Rightarrow> 's world \<Rightarrow> (py_exception + (string \<rightharpoonup> py_value) list) \<times> 's world" where
  "vector_search self query_embedding match_count filter_metadata table_rpc w =
     (case build_query_filter filter_metadata of
        Inl e \<Rightarrow> (Inl e, w)
      | Inr qf \<Rightarrow>
          (case client_search (client self)
                  (search_request_of query_embedding match_count qf table_rpc) w of
             (Inl e, w') \<Rightarrow> (Inl e, w')
           | (Inr results, w') \<Rightarrow> (Inr (map flatten_hit results), w')))"

section \<open>RAGService (rag\_service.py)\<close>

record 's rag_service =
  base_strategy :: "'s base_search_strategy"

text \<open>
  \<open>create_embedding\<close> lives in the embedding service, outside these sources, and is a
  parameter. The spec describes the embedding provider as a pure function from text to
  a vector that may fail, so the parameter is a function from the query text to an
  exception or a vector.

  Modelled from the spec: \<open>safe_span\<close> and the logger are absent from these sources. The
  spec has them attach trace metadata "for observability, not for control flow" and lets
  all failures "bubble unchanged", so the span is transparent here: it neither catches
  an exception nor changes a result.
\<close>

definition search_documents ::
  "'s rag_service \<Rightarrow> (string \<Rightarrow> py_exception + py_float list) \<Rightarrow> string \<Rightarrow> int
     \<Rightarrow> (string \<times> py_value) list option
     \<Rightarrow> 's world \<Rightarrow> (py_exception + (string \<rightharpoonup> py_value) list) \<times> 's world" where
  "search_documents self create_embedding query match_count filter_metadata w =
     (case create_embedding query of
        Inl e \<Rightarrow> (Inl e, w)
      | Inr query_embedding \<Rightarrow>
          vector_search (base_strategy self) query_embedding match_count filter_metadata
            ''match_archon_crawled_pages'' w)"

definition search_code_examples ::
  "'s rag_service \<Rightarrow> (string \<Rightarrow> py_exception + py_float list) \<Rightarrow> string \<Rightarrow> int
     \<Rightarrow> (string \<times> py_value) list option
     \<Rightarrow> 's world \<Rightarrow> (py_exception + (string \<rightharpoonup> py_value) list) \<times> 's world" where
  "search_code_examples self create_embedding query match_count filter_metadata w =
     (case create_embedding query of
        Inl e \<Rightarrow> (Inl e, w)
      | Inr query_embedding \<Rightarrow>
          vector_search (base_strategy self) query_embedding match_count filter_metadata
            ''match_archon_code_examples'' w)"

section \<open>An in-memory vector store\<close>

text \<open>
  A store to run the search layer against: named collections of points, each collection
  already in ranking order. Its search raises on an unknown collection, keeps the points
  whose payload meets every \<open>must\<close> condition, and returns the first \<open>limit\<close> of them.
  It never changes its state.
\<close>

fun condition_holds :: "(string \<rightharpoonup> py_value) \<Rightarrow> field_condition \<Rightarrow> bool" where
  "condition_holds p (FieldCondition k (MatchValue v)) = (p k = Some v)"

definition payload_of :: "scored_point \<Rightarrow> (string \<rightharpoonup> py_value)" where
  "payload_of r = (case payload r of None \<Rightarrow> Map.empty | Some p \<Rightarrow> p)"

definition hit_matches :: "qdrant_filter option \<Rightarrow> scored_point \<Rightarrow> bool" where
  "hit_matches qf r =
     (case qf of None \<Rightarrow> True | Some f \<Rightarrow> list_all (condition_holds (payload_of r)) (must f))"

definition memory_search ::
  "search_request \<Rightarrow> (string \<times> scored_point list) list
     \<Rightarrow> (py_exception + scored_point list) \<times> (string \<times> scored_point list) list" where
  "memory_search req s =
     (case map_of s (collection_name req) of
        None \<Rightarrow> (Inl (PyException ''ValueError'' ''Collection not found''), s)
      | Some points \<Rightarrow>
          (Inr (take (nat (limit req)) (filter (hit_matches (query_filter req)) points)), s))"

definition memory_client :: "(string \<times> scored_point list) list qdrant_client" where
  "memory_client = \<lparr>search = memory_search\<rparr>"

definition memory_service :: "(string \<times> scored_point list) list rag_service" where
  "memory_service = \<lparr>base_strategy = \<lparr>client = memory_client\<rparr>\<rparr>"

text \<open>Three code snippets and one document; the second snippet's payload has its own \<open>id\<close>.\<close>

definition snippet_a :: scored_point where
  "snippet_a = \<lparr>point_id = PyInt 1, score = 0.9,
                 payload = Some [''language'' \<mapsto> PyStr ''go'']\<rparr>"

definition snippet_b :: scored_point where
  "snippet_b = \<lparr>point_id = PyInt 2, score = 0.7,
                 payload = Some [''language'' \<mapsto> PyStr ''go'', ''id'' \<mapsto> PyStr ''pool.go'']\<rparr>"

definition snippet_c :: scored_point where
  "snippet_c = \<lparr>point_id = PyInt 3, score = 0.3,
                 payload = Some [''language'' \<mapsto> PyStr ''rust'']\<rparr>"

definition page_a :: scored_point where
  "page_a = \<lparr>point_id = PyStr ''p1'', score = 0.1, payload = None\<rparr>"

definition demo_store :: "(string \<times> scored_point list) list" where
  "demo_store = [(''code'', [snippet_a, snippet_b, snippet_c]), (''docs'', [page_a])]"

definition demo_world :: "(string \<times> scored_point list) list world" where
  "demo_world = \<lparr>store = demo_store, round_trips = []\<rparr>"

definition demo_embedding :: "string \<Rightarrow> py_exception + py_float list" where
  "demo_embedding query =
     (if query = [] then Inl (PyException ''EmbeddingError'' ''empty text'')
      else Inr [0.1, 0.3])"

text \<open>A store whose two collections are empty, and a store without collections.\<close>

definition quiet_world :: "(string \<times> scored_point list) list world" where
  "quiet_world = \<lparr>store = [(''code'', []), (''docs'', [])], round_trips = []\<rparr>"

definition empty_world :: "(string \<times> scored_point list) list world" where
  "empty_world = \<lparr>store = [], round_trips = []\<rparr>"

text \<open>A client that ignores \<open>limit\<close>: it returns every matching point of the collection.\<close>

definition greedy_search ::
  "search_request \<Rightarrow> (string \<times> scored_point list) list
     \<Rightarrow> (py_exception + scored_point list) \<times> (string \<times> scored_point list) list" where
  "greedy_search req s =
     (case map_of s (collection_name req) of
        None \<Rightarrow> (Inl (PyException ''ValueError'' ''Collection not found''), s)
      | Some points \<Rightarrow> (Inr (filter (hit_matches (query_filter req)) points), s))"

definition greedy_strategy :: "(string \<times> scored_point list) list base_search_strategy" where
  "greedy_strategy = \<lparr>client = \<lparr>search = greedy_search\<rparr>\<rparr>"

section \<open>TaskService (task\_service.py)\<close>

text \<open>
  The table \<open>archon_tasks\<close> as the list of its rows, and the number of connections opened
  so far: entering \<open>SQLiteCursorContext\<close> opens one, leaving it without an exception
  commits.
\<close>

record task_row =
  row_id :: int
  row_project_id :: int
  row_title :: string
  row_description :: string
  row_status :: string
  row_assignee :: string
  row_created_at :: string
  row_updated_at :: string

record database =
  archon_tasks :: "task_row list"
  connections_opened :: nat

text \<open>The dicts the service returns.\<close>

datatype json = JStr string | JInt int | JObj "(string \<times> json) list"

text \<open>\<open>str\<close> of an integer, for the f-strings.\<close>

function str_nat :: "nat \<Rightarrow> string" where
  "str_nat n =
     (if n < 10 then [''0123456789'' ! n]
      else str_nat (n div 10) @ [''0123456789'' ! (n mod 10)])"
  by pat_completeness auto
termination
  by (relation "measure (\<lambda>n. n)") auto

declare str_nat.simps [simp del]

definition str_int :: "int \<Rightarrow> string" where
  "str_int i = (if i < 0 then CHR ''-'' # str_nat (nat (- i)) else str_nat (nat i))"

definition VALID_STATUSES :: "string list" where
  "VALID_STATUSES = [''todo'', ''doing'', ''review'', ''done'']"

definition invalid_status_reply :: "string \<Rightarrow> bool \<times> json" where
  "invalid_status_reply status =
     (False, JObj [(''error'', JStr (''Invalid status '' @ [CHR 0x27] @ status @ [CHR 0x27]))])"

definition db_open :: "database \<Rightarrow> database" where
  "db_open db = db\<lparr>connections_opened := connections_opened db + 1\<rparr>"

text \<open>
  The sqlite3 module binds a Python int as a 64-bit INTEGER and raises OverflowError for
  an int outside that range. The exception leaves the \<open>with\<close> block, whose exit rolls
  back and closes the connection that was opened.
\<close>

definition fits_int64 :: "int \<Rightarrow> bool" where
  "fits_int64 i = (- 9223372036854775808 \<le> i \<and> i \<le> 9223372036854775807)"

definition overflow_error :: py_exception where
  "overflow_error =
     PyException ''OverflowError'' ''Python int too large to convert to SQLite INTEGER''"

text \<open>
  The schema of \<open>archon_tasks\<close> is outside these sources, so the id SQLite gives an
  inserted row (\<open>cur.lastrowid\<close>) is a parameter \<open>new_rowid\<close>, a function of the table.
  The two readings of the clock are the parameters \<open>now_created\<close> and \<open>now_updated\<close>.
  Of the bound parameters only \<open>project_id\<close> is an int.
\<close>

definition create_task ::
  "(task_row list \<Rightarrow> int) \<Rightarrow> string \<Rightarrow> string
     \<Rightarrow> int \<Rightarrow> string \<Rightarrow> string \<Rightarrow> string \<Rightarrow> string
     \<Rightarrow> database \<Rightarrow> (py_exception + bool \<times> json) \<times> database" where
  "create_task new_rowid now_created now_updated project_id title description status assignee db =
     (if status \<notin> set VALID_STATUSES then (Inr (invalid_status_reply status), db)
      else
        let db1 = db_open db in
        if \<not> fits_int64 project_id then (Inl overflow_error, db1)
        else
          let task_id = new_rowid (archon_tasks db1);
              db2 = db1\<lparr>archon_tasks := archon_tasks db1 @
                      [\<lparr>row_id = task_id, row_project_id = project_id, row_title = title,
                        row_description = description, row_status = status,
                        row_assignee = assignee, row_created_at = now_created,
                        row_updated_at = now_updated\<rparr>]\<rparr>
          in (Inr (True, JObj [(''task'', JObj [(''id'', JInt task_id), (''title'', JStr title),
                                                 (''status'', JStr status)])]), db2))"

text \<open>
  \<open>UPDATE ... WHERE id = ?\<close> rewrites every row with that id; \<open>cur.rowcount\<close> is the
  number of rows it matched. The early return inside the \<open>with\<close> block leaves the block
  without an exception, so the (empty) update is committed. Of the bound parameters only
  \<open>task_id\<close> is an int.
\<close>

definition update_status ::
  "string \<Rightarrow> int \<Rightarrow> string \<Rightarrow> database \<Rightarrow> (py_exception + bool \<times> json) \<times> database" where
  "update_status now task_id status db =
     (if status \<notin> set VALID_STATUSES then (Inr (invalid_status_reply status), db)
      else
        let db1 = db_open db in
        if \<not> fits_int64 task_id then (Inl overflow_error, db1)
        else
          let rowcount = length (filter (\<lambda>r. row_id r = task_id) (archon_tasks db1));
              db2 = db1\<lparr>archon_tasks :=
                      map (\<lambda>r. if row_id r = task_id
                                then r\<lparr>row_status := status, row_updated_at := now\<rparr> else r)
                          (archon_tasks db1)\<rparr>
          in if rowcount = 0
             then (Inr (False, JObj [(''error'',
                     JStr (''Task with ID '' @ str_int task_id @ '' not found''))]), db2)
             else (Inr (True, JObj [(''task'', JObj [(''id'', JInt task_id),
                                                     (''status'', JStr status)])]), db2))"

text \<open>
  What a caller sees: the call returned \<open>(False, {"error": ...})\<close>, or it returned
  \<open>(True, ...)\<close>. A raised exception is neither.
\<close>

fun is_error :: "bool \<times> json \<Rightarrow> bool" where
  "is_error (ok, JObj [(k, JStr msg)]) = (\<not> ok \<and> k = ''error'')"
| "is_error _ = False"

fun returns_error :: "py_exception + bool \<times> json \<Rightarrow> bool" where
  "returns_error (Inr reply) = is_error reply"
| "returns_error (Inl e) = False"

fun returns_success :: "py_exception + bool \<times> json \<Rightarrow> bool" where
  "returns_success (Inr reply) = fst reply"
| "returns_success (Inl e) = False"

definition demo_row :: task_row where
  "demo_row = \<lparr>row_id = 7, row_project_id = 1, row_title = ''write docs'',
               row_description = [], row_status = ''todo'', row_assignee = ''User'',
               row_created_at = ''2024-01-01T00:00:00'',
               row_updated_at = ''2024-01-01T00:00:00''\<rparr>"

definition demo_db :: database where
  "demo_db = \<lparr>archon_tasks = [demo_row], connections_opened = 0\<rparr>"

lemmas demo_defs =
  memory_service_def memory_client_def memory_search_def search_request_of_def
  dict_get_def COLLECTION_MAP_def demo_world_def demo_store_def build_query_filter_def
  hit_matches_def payload_of_def snippet_a_def snippet_b_def snippet_c_def
  page_a_def demo_embedding_def quiet_world_def empty_world_def
  greedy_strategy_def greedy_search_def

section \<open>Facts about the search layer\<close>

lemma build_must_raises: "items \<noteq> [] \<Longrightarrow> build_must items = Inl positional_argument_error"
  by (cases items) (auto simp: MatchValue_positional_def)

lemma build_query_filter_cases:
  "build_query_filter fm =
     (if fm = None \<or> fm = Some [] then Inr None else Inl positional_argument_error)"
  by (cases fm) (auto simp: build_query_filter_def build_must_raises)

lemma vector_search_unfiltered:
  assumes "fm = None \<or> fm = Some []"
  shows "vector_search self qe mc fm table_rpc w =
           (case client_search (client self) (search_request_of qe mc None table_rpc) w of
              (Inl e, w') \<Rightarrow> (Inl e, w')
            | (Inr results, w') \<Rightarrow> (Inr (map flatten_hit results), w'))"
  using assms by (simp add: vector_search_def build_query_filter_cases)

lemma vector_search_filtered:
  assumes "\<not> (fm = None \<or> fm = Some [])"
  shows "vector_search self qe mc fm table_rpc w = (Inl positional_argument_error, w)"
proof -
  from assms have "build_query_filter fm = Inl positional_argument_error"
    by (simp only: build_query_filter_cases if_False)
  then show ?thesis
    by (simp add: vector_search_def)
qed

lemma vector_search_round_trips:
  "round_trips (snd (vector_search self qe mc fm table_rpc w)) =
     round_trips w @
       (if fm = None \<or> fm = Some [] then [search_request_of qe mc None table_rpc] else [])"
proof (cases "fm = None \<or> fm = Some []")
  case True
  then show ?thesis
    by (simp add: vector_search_unfiltered client_search_def split: prod.splits sum.splits)
next
  case False
  have raised: "vector_search self qe mc fm table_rpc w = (Inl positional_argument_error, w)"
    using False by (rule vector_search_filtered)
  show ?thesis
    by (simp only: raised False if_False snd_conv append_Nil2)
qed

lemma new_round_trips_same: "new_round_trips w w = []"
  by (simp add: new_round_trips_def)

lemma vector_search_new_round_trips:
  "new_round_trips w (snd (vector_search self qe mc fm table_rpc w)) =
     (if fm = None \<or> fm = Some [] then [search_request_of qe mc None table_rpc] else [])"
  by (simp add: new_round_trips_def vector_search_round_trips)

lemma vector_search_result:
  assumes "fm = None \<or> fm = Some []"
  shows "fst (vector_search self qe mc fm table_rpc w) =
           (case fst (search (client self) (search_request_of qe mc None table_rpc) (store w)) of
              Inl e \<Rightarrow> Inl e | Inr hits \<Rightarrow> Inr (map flatten_hit hits))"
  using assms
  by (simp add: vector_search_unfiltered client_search_def split: prod.splits sum.splits)

lemma vector_search_store:
  "store (snd (vector_search self qe mc fm table_rpc w)) =
     (if fm = None \<or> fm = Some []
      then snd (search (client self) (search_request_of qe mc None table_rpc) (store w))
      else store w)"
proof (cases "fm = None \<or> fm = Some []")
  case True
  then show ?thesis
    by (simp add: vector_search_unfiltered client_search_def split: prod.splits sum.splits)
next
  case False
  have raised: "vector_search self qe mc fm table_rpc w = (Inl positional_argument_error, w)"
    using False by (rule vector_search_filtered)
  show ?thesis
    by (simp only: raised False if_False snd_conv append_Nil2)
qed

lemma flatten_hit_lookup:
  "flatten_hit r k =
     (case payload_of r k of
        Some v \<Rightarrow> Some v
      | None \<Rightarrow> if k = ''id'' then Some (point_id r)
                else if k = ''score'' then Some (PyFloat (score r)) else None)"
  by (simp add: flatten_hit_def payload_of_def map_add_def split: option.splits)

lemma collection_of_request:
  "collection_name (search_request_of qe mc qf table_rpc) = dict_get COLLECTION_MAP table_rpc table_rpc"
  by (simp add: search_request_of_def)

lemma limit_of_request: "limit (search_request_of qe mc qf table_rpc) = mc"
  by (simp add: search_request_of_def)

lemma resolve_docs:
  "dict_get COLLECTION_MAP ''match_archon_crawled_pages'' ''match_archon_crawled_pages'' = ''docs''"
  by (simp add: dict_get_def COLLECTION_MAP_def)

lemma resolve_code:
  "dict_get COLLECTION_MAP ''match_archon_code_examples'' ''match_archon_code_examples'' = ''code''"
  by (simp add: dict_get_def COLLECTION_MAP_def)

lemma search_documents_cases:
  "search_documents svc emb q mc fm w =
     (case emb q of Inl e \<Rightarrow> (Inl e, w)
      | Inr v \<Rightarrow> vector_search (base_strategy svc) v mc fm ''match_archon_crawled_pages'' w)"
  by (simp add: search_documents_def)

lemma search_code_examples_cases:
  "search_code_examples svc emb q mc fm w =
     (case emb q of Inl e \<Rightarrow> (Inl e, w)
      | Inr v \<Rightarrow> vector_search (base_strategy svc) v mc fm ''match_archon_code_examples'' w)"
  by (simp add: search_code_examples_def)

lemma search_documents_new_round_trips:
  "new_round_trips w (snd (search_documents svc emb q mc fm w)) =
     (case emb q of
        Inl e \<Rightarrow> []
      | Inr v \<Rightarrow> if fm = None \<or> fm = Some []
                 then [search_request_of v mc None ''match_archon_crawled_pages''] else [])"
  by (cases "emb q")
    (simp_all only: search_documents_cases vector_search_new_round_trips new_round_trips_same
      sum.case snd_conv)

lemma search_code_examples_new_round_trips:
  "new_round_trips w (snd (search_code_examples svc emb q mc fm w)) =
     (case emb q of
        Inl e \<Rightarrow> []
      | Inr v \<Rightarrow> if fm = None \<or> fm = Some []
                 then [search_request_of v mc None ''match_archon_code_examples''] else [])"
  by (cases "emb q")
    (simp_all only: search_code_examples_cases vector_search_new_round_trips new_round_trips_same
      sum.case snd_conv)

text \<open>
  C1. The collection of a request is the alias looked up in \<open>COLLECTION_MAP\<close>:
  \<open>match_archon_crawled_pages\<close> gives \<open>docs\<close>, \<open>match_archon_code_examples\<close> gives
  \<open>code\<close>, and an alias that is not a key of the table is used as the collection itself.
  Every round trip a call of \<open>vector_search\<close> makes goes to that collection, every round
  trip of \<open>search_documents\<close> goes to \<open>docs\<close> and every round trip of
  \<open>search_code_examples\<close> to \<open>code\<close>. With an absent or empty filter the call makes
  exactly one round trip (for the two service methods, once the embedding is there).
\<close>

theorem alias_resolution:
  "collection_name (search_request_of qe mc qf ''match_archon_crawled_pages'') = ''docs''
   \<and> collection_name (search_request_of qe mc qf ''match_archon_code_examples'') = ''code''
   \<and> (table_rpc \<notin> fst ` set COLLECTION_MAP \<longrightarrow>
        collection_name (search_request_of qe mc qf table_rpc) = table_rpc)
   \<and> (\<forall>req \<in> set (new_round_trips w (snd (vector_search self qe mc fm table_rpc w))).
        collection_name req = dict_get COLLECTION_MAP table_rpc table_rpc)
   \<and> (\<forall>req \<in> set (new_round_trips w (snd (search_documents svc create_embedding q mc fm w))).
        collection_name req = ''docs'')
   \<and> (\<forall>req \<in> set (new_round_trips w (snd (search_code_examples svc create_embedding q mc fm w))).
        collection_name req = ''code'')
   \<and> (fm = None \<or> fm = Some [] \<longrightarrow>
        map collection_name (new_round_trips w (snd (vector_search self qe mc fm table_rpc w))) =
          [dict_get COLLECTION_MAP table_rpc table_rpc])
   \<and> ((fm = None \<or> fm = Some []) \<and> create_embedding q = Inr qe \<longrightarrow>
        map collection_name
            (new_round_trips w (snd (search_documents svc create_embedding q mc fm w))) = [''docs'']
        \<and> map collection_name
            (new_round_trips w (snd (search_code_examples svc create_embedding q mc fm w))) = [''code''])"
proof -
  have other: "table_rpc \<notin> fst ` set COLLECTION_MAP \<Longrightarrow>
      dict_get COLLECTION_MAP table_rpc table_rpc = table_rpc"
    by (simp add: dict_get_def map_of_eq_None_iff [THEN iffD2])
  have vs: "\<forall>req \<in> set (new_round_trips w (snd (vector_search self qe mc fm table_rpc w))).
      collection_name req = dict_get COLLECTION_MAP table_rpc table_rpc"
    by (simp add: vector_search_new_round_trips collection_of_request)
  have sd: "\<forall>req \<in> set (new_round_trips w (snd (search_documents svc create_embedding q mc fm w))).
      collection_name req = ''docs''"
    by (auto simp: search_documents_new_round_trips collection_of_request resolve_docs
        split: sum.splits if_splits)
  have sc: "\<forall>req \<in> set (new_round_trips w (snd (search_code_examples svc create_embedding q mc fm w))).
      collection_name req = ''code''"
    by (auto simp: search_code_examples_new_round_trips collection_of_request resolve_code
        split: sum.splits if_splits)
  have one: "fm = None \<or> fm = Some [] \<Longrightarrow>
      map collection_name (new_round_trips w (snd (vector_search self qe mc fm table_rpc w))) =
        [dict_get COLLECTION_MAP table_rpc table_rpc]"
    by (simp add: vector_search_new_round_trips collection_of_request)
  have svc_one: "(fm = None \<or> fm = Some []) \<and> create_embedding q = Inr qe \<Longrightarrow>
      map collection_name
          (new_round_trips w (snd (search_documents svc create_embedding q mc fm w))) = [''docs'']
      \<and> map collection_name
          (new_round_trips w (snd (search_code_examples svc create_embedding q mc fm w))) = [''code'']"
    by (simp add: search_documents_new_round_trips search_code_examples_new_round_trips
        collection_of_request resolve_docs resolve_code)
  show ?thesis
    using other vs sd sc one svc_one
    by (simp only: collection_of_request resolve_docs resolve_code) blast
qed

theorem alias_resolution_witness:
  "''foo'' \<notin> fst ` set COLLECTION_MAP
   \<and> collection_name (search_request_of [0.1, 0.3] 3 None ''foo'') = ''foo''
   \<and> new_round_trips demo_world (snd (vector_search (base_strategy memory_service)
         [0.1, 0.3] 3 None ''foo'' demo_world)) =
       [\<lparr>collection_name = ''foo'', query_vector = [0.1, 0.3], limit = 3, query_filter = None\<rparr>]
   \<and> map collection_name (new_round_trips demo_world (snd (vector_search
         (base_strategy memory_service) [0.1, 0.3] 3 None ''foo'' demo_world))) = [''foo'']
   \<and> demo_embedding ''pooling'' = Inr [0.1, 0.3]
   \<and> map collection_name (new_round_trips demo_world (snd (search_documents memory_service
         demo_embedding ''pooling'' 3 None demo_world))) = [''docs'']
   \<and> map collection_name (new_round_trips demo_world (snd (search_code_examples memory_service
         demo_embedding ''pooling'' 3 None demo_world))) = [''code'']"
proof -
  have h1: "''foo'' \<notin> fst ` set COLLECTION_MAP"
    by (simp add: COLLECTION_MAP_def)
  have h2: "demo_embedding ''pooling'' = Inr [0.1, 0.3]"
    by (simp add: demo_embedding_def)
  have h3: "(None :: (string \<times> py_value) list option) = None \<or> None = Some []"
    by simp
  have r: "new_round_trips demo_world (snd (vector_search (base_strategy memory_service)
         [0.1, 0.3] 3 None ''foo'' demo_world)) =
       [\<lparr>collection_name = ''foo'', query_vector = [0.1, 0.3], limit = 3, query_filter = None\<rparr>]"
    by (simp add: vector_search_new_round_trips search_request_of_def dict_get_def
        COLLECTION_MAP_def)
  show ?thesis
    using h1 h2 h3 r
      alias_resolution [where table_rpc = "''foo''" and create_embedding = demo_embedding
        and q = "''pooling''" and qe = "[0.1, 0.3]" and mc = 3 and fm = None and qf = None
        and self = "base_strategy memory_service" and svc = memory_service and w = demo_world]
    by simp
qed


text \<open>
  C2. The claim is that a non-empty filter becomes one equality condition per entry and is
  passed to the store. At the filter \<open>{"language": "go"}\<close> the code raises TypeError at
  the positional \<open>models.MatchValue(v)\<close>: no filter is built, the store is never asked
  (the log of round trips stays empty) and no hit is returned, through \<open>vector_search\<close>
  and through \<open>search_code_examples\<close> alike.
\<close>

theorem nonempty_filter_raises:
  "vector_search (base_strategy memory_service) [0.1, 0.3] 3
     (Some [(''language'', PyStr ''go'')]) ''match_archon_code_examples''
     \<lparr>store = demo_store, round_trips = []\<rparr>
   = (Inl (PyException ''TypeError''
            ''BaseModel.__init__() takes 1 positional argument but 2 were given''),
      \<lparr>store = demo_store, round_trips = []\<rparr>)
   \<and> search_code_examples memory_service demo_embedding ''connection pooling'' 3
       (Some [(''language'', PyStr ''go'')]) \<lparr>store = demo_store, round_trips = []\<rparr>
   = (Inl (PyException ''TypeError''
            ''BaseModel.__init__() takes 1 positional argument but 2 were given''),
      \<lparr>store = demo_store, round_trips = []\<rparr>)"
  by (simp add: search_code_examples_def vector_search_def build_query_filter_def
      MatchValue_positional_def positional_argument_error_def demo_embedding_def)

text \<open>
  C3. The claim is that at most \<open>K\<close> hits are returned. The code passes \<open>limit = K\<close> to
  the store and returns one record per hit of the answer, without cutting the answer
  down: against a client that ignores \<open>limit\<close>, a call with \<open>K = 2\<close> returns three hits.
\<close>

theorem limit_not_enforced_counterexample:
  "vector_search greedy_strategy [0.1, 0.3] 2 None ''match_archon_code_examples'' demo_world =
     (Inr [flatten_hit snippet_a, flatten_hit snippet_b, flatten_hit snippet_c],
      \<lparr>store = demo_store,
       round_trips = [\<lparr>collection_name = ''code'', query_vector = [0.1, 0.3], limit = 2,
                        query_filter = None\<rparr>]\<rparr>)"
  by (simp add: vector_search_def client_search_def demo_defs)

text \<open>
  C3, as the code has it: for a match count \<open>K > 0\<close> and an absent or empty filter, the
  one request sent to the store has \<open>limit = K\<close>. When the store answers with hits,
  \<open>vector_search\<close> returns exactly one record per hit, in the store's order, so as many
  as the store returned (at most \<open>K\<close> when the store returned at most \<open>K\<close>). Each record
  holds the hit's payload entries, and the hit's id and score under \<open>id\<close> and \<open>score\<close>
  where the payload has no such key.
\<close>

theorem limit_and_order:
  assumes "0 < K"
    and "fm = None \<or> fm = Some []"
    and "search (client self) (search_request_of qe K None table_rpc) (store w) = (Inr hits, s')"
  shows "limit (search_request_of qe K None table_rpc) = K
       \<and> round_trips (snd (vector_search self qe K fm table_rpc w)) =
           round_trips w @ [search_request_of qe K None table_rpc]
       \<and> fst (vector_search self qe K fm table_rpc w) = Inr (map flatten_hit hits)
       \<and> length (map flatten_hit hits) = length hits
       \<and> (int (length hits) \<le> K \<longrightarrow> int (length (map flatten_hit hits)) \<le> K)
       \<and> (\<forall>i < length hits. \<forall>k. (map flatten_hit hits ! i) k =
            (case payload_of (hits ! i) k of
               Some v \<Rightarrow> Some v
             | None \<Rightarrow> if k = ''id'' then Some (point_id (hits ! i))
                       else if k = ''score'' then Some (PyFloat (score (hits ! i))) else None))"
proof -
  have res: "fst (vector_search self qe K fm table_rpc w) = Inr (map flatten_hit hits)"
    using assms(2,3) by (simp add: vector_search_result)
  have trips: "round_trips (snd (vector_search self qe K fm table_rpc w)) =
      round_trips w @ [search_request_of qe K None table_rpc]"
    using assms(2) by (simp only: vector_search_round_trips if_True)
  show ?thesis
    using res trips by (simp add: limit_of_request flatten_hit_lookup)
qed

theorem limit_and_order_witness:
  "(0::int) < 2
   \<and> search (client (base_strategy memory_service))
        (search_request_of [0.1, 0.3] 2 None ''match_archon_code_examples'') (store demo_world)
      = (Inr [snippet_a, snippet_b], demo_store)
   \<and> limit (search_request_of [0.1, 0.3] 2 None ''match_archon_code_examples'') = 2
   \<and> fst (vector_search (base_strategy memory_service) [0.1, 0.3] 2 None
        ''match_archon_code_examples'' demo_world) = Inr [flatten_hit snippet_a, flatten_hit snippet_b]
   \<and> int (length [snippet_a, snippet_b]) \<le> 2
   \<and> int (length [flatten_hit snippet_a, flatten_hit snippet_b]) \<le> 2"
proof -
  have h1: "(0::int) < 2"
    by simp
  have h2: "(None :: (string \<times> py_value) list option) = None \<or> None = Some []"
    by simp
  have h3: "search (client (base_strategy memory_service))
        (search_request_of [0.1, 0.3] 2 None ''match_archon_code_examples'') (store demo_world)
      = (Inr [snippet_a, snippet_b], demo_store)"
    by (simp add: demo_defs)
  show ?thesis
    using h1 h3 limit_and_order [OF h1 h2 h3] by simp
qed

lemma vector_search_empty:
  assumes "fst (vector_search self qe mc fm table_rpc w) = Inr []"
  shows "fst (search (client self) (search_request_of qe mc None table_rpc) (store w)) = Inr []"
proof (cases "fm = None \<or> fm = Some []")
  case True
  with assms show ?thesis
    by (simp add: vector_search_result split: sum.splits)
next
  case False
  have "vector_search self qe mc fm table_rpc w = (Inl positional_argument_error, w)"
    using False by (rule vector_search_filtered)
  with assms show ?thesis
    by simp
qed

lemma vector_search_store_error:
  assumes "new_round_trips w (snd (vector_search self qe mc fm table_rpc w)) = [req]"
    and "fst (search (client self) req (store w)) = Inl e"
  shows "fst (vector_search self qe mc fm table_rpc w) = Inl e"
proof (cases "fm = None \<or> fm = Some []")
  case True
  with assms(1) have "req = search_request_of qe mc None table_rpc"
    by (simp only: vector_search_new_round_trips if_True list.inject)
  with assms(2) True show ?thesis
    by (simp add: vector_search_result)
next
  case False
  with assms(1) show ?thesis
    by (simp only: vector_search_new_round_trips if_False) simp
qed

text \<open>
  C4. If the embedding call raises, \<open>search_documents\<close> and \<open>search_code_examples\<close> raise
  the same exception and leave the world as it was: no round trip to the store is made.
  An empty result list comes back only when the embedding succeeded and the store itself
  returned no hits. When the call asks the store and the store raises, that exception is
  raised to the caller.
\<close>

theorem failure_propagation:
  "(create_embedding q = Inl e \<longrightarrow>
      search_documents svc create_embedding q mc fm w = (Inl e, w)
      \<and> search_code_examples svc create_embedding q mc fm w = (Inl e, w))
   \<and> (fst (search_documents svc create_embedding q mc fm w) = Inr [] \<longrightarrow>
        (\<exists>v. create_embedding q = Inr v
           \<and> fst (search (client (base_strategy svc))
                 (search_request_of v mc None ''match_archon_crawled_pages'') (store w)) = Inr []))
   \<and> (fst (search_code_examples svc create_embedding q mc fm w) = Inr [] \<longrightarrow>
        (\<exists>v. create_embedding q = Inr v
           \<and> fst (search (client (base_strategy svc))
                 (search_request_of v mc None ''match_archon_code_examples'') (store w)) = Inr []))
   \<and> (new_round_trips w (snd (search_documents svc create_embedding q mc fm w)) = [dreq]
        \<and> fst (search (client (base_strategy svc)) dreq (store w)) = Inl e \<longrightarrow>
        fst (search_documents svc create_embedding q mc fm w) = Inl e)
   \<and> (new_round_trips w (snd (search_code_examples svc create_embedding q mc fm w)) = [creq]
        \<and> fst (search (client (base_strategy svc)) creq (store w)) = Inl e \<longrightarrow>
        fst (search_code_examples svc create_embedding q mc fm w) = Inl e)"
proof (intro conjI impI)
  assume "create_embedding q = Inl e"
  then show "search_documents svc create_embedding q mc fm w = (Inl e, w)"
    and "search_code_examples svc create_embedding q mc fm w = (Inl e, w)"
    by (simp_all add: search_documents_cases search_code_examples_cases)
next
  assume "fst (search_documents svc create_embedding q mc fm w) = Inr []"
  then show "\<exists>v. create_embedding q = Inr v
      \<and> fst (search (client (base_strategy svc))
            (search_request_of v mc None ''match_archon_crawled_pages'') (store w)) = Inr []"
    by (cases "create_embedding q") (simp_all add: search_documents_cases vector_search_empty)
next
  assume "fst (search_code_examples svc create_embedding q mc fm w) = Inr []"
  then show "\<exists>v. create_embedding q = Inr v
      \<and> fst (search (client (base_strategy svc))
            (search_request_of v mc None ''match_archon_code_examples'') (store w)) = Inr []"
    by (cases "create_embedding q") (simp_all add: search_code_examples_cases vector_search_empty)
next
  assume a: "new_round_trips w (snd (search_documents svc create_embedding q mc fm w)) = [dreq]
      \<and> fst (search (client (base_strategy svc)) dreq (store w)) = Inl e"
  show "fst (search_documents svc create_embedding q mc fm w) = Inl e"
  proof (cases "create_embedding q")
    case (Inl x)
    with a show ?thesis
      by (simp add: search_documents_cases new_round_trips_same)
  next
    case (Inr v)
    with a show ?thesis
      by (simp add: search_documents_cases vector_search_store_error)
  qed
next
  assume a: "new_round_trips w (snd (search_code_examples svc create_embedding q mc fm w)) = [creq]
      \<and> fst (search (client (base_strategy svc)) creq (store w)) = Inl e"
  show "fst (search_code_examples svc create_embedding q mc fm w) = Inl e"
  proof (cases "create_embedding q")
    case (Inl x)
    with a show ?thesis
      by (simp add: search_code_examples_cases new_round_trips_same)
  next
    case (Inr v)
    with a show ?thesis
      by (simp add: search_code_examples_cases vector_search_store_error)
  qed
qed


theorem failure_propagation_witness:
  "demo_embedding [] = Inl (PyException ''EmbeddingError'' ''empty text'')
   \<and> search_documents memory_service demo_embedding [] 5 None demo_world =
        (Inl (PyException ''EmbeddingError'' ''empty text''), demo_world)
   \<and> search_code_examples memory_service demo_embedding [] 5 None demo_world =
        (Inl (PyException ''EmbeddingError'' ''empty text''), demo_world)
   \<and> fst (search_documents memory_service demo_embedding ''pooling'' 5 None quiet_world) = Inr []
   \<and> fst (search_code_examples memory_service demo_embedding ''pooling'' 5 None quiet_world) = Inr []
   \<and> demo_embedding ''pooling'' = Inr [0.1, 0.3]
   \<and> fst (search (client (base_strategy memory_service))
        (search_request_of [0.1, 0.3] 5 None ''match_archon_crawled_pages'')
        (store quiet_world)) = Inr []
   \<and> new_round_trips empty_world
        (snd (search_documents memory_service demo_embedding ''pooling'' 5 None empty_world)) =
      [search_request_of [0.1, 0.3] 5 None ''match_archon_crawled_pages'']
   \<and> new_round_trips empty_world
        (snd (search_code_examples memory_service demo_embedding ''pooling'' 5 None empty_world)) =
      [search_request_of [0.1, 0.3] 5 None ''match_archon_code_examples'']
   \<and> fst (search (client (base_strategy memory_service))
        (search_request_of [0.1, 0.3] 5 None ''match_archon_crawled_pages'') (store empty_world))
      = Inl (PyException ''ValueError'' ''Collection not found'')
   \<and> fst (search (client (base_strategy memory_service))
        (search_request_of [0.1, 0.3] 5 None ''match_archon_code_examples'') (store empty_world))
      = Inl (PyException ''ValueError'' ''Collection not found'')
   \<and> fst (search_documents memory_service demo_embedding ''pooling'' 5 None empty_world)
      = Inl (PyException ''ValueError'' ''Collection not found'')
   \<and> fst (search_code_examples memory_service demo_embedding ''pooling'' 5 None empty_world)
      = Inl (PyException ''ValueError'' ''Collection not found'')"
proof -
  have h1: "demo_embedding [] = Inl (PyException ''EmbeddingError'' ''empty text'')"
    by (simp add: demo_embedding_def)
  have h2: "fst (search_documents memory_service demo_embedding ''pooling'' 5 None quiet_world) = Inr []"
    by (simp add: search_documents_cases vector_search_result demo_defs)
  have h3: "fst (search_code_examples memory_service demo_embedding ''pooling'' 5 None quiet_world) = Inr []"
    by (simp add: search_code_examples_cases vector_search_result demo_defs)
  have h4: "demo_embedding ''pooling'' = Inr [0.1, 0.3]"
    by (simp add: demo_embedding_def)
  have h5: "new_round_trips empty_world
        (snd (search_documents memory_service demo_embedding ''pooling'' 5 None empty_world)) =
      [search_request_of [0.1, 0.3] 5 None ''match_archon_crawled_pages'']"
    by (simp add: search_documents_new_round_trips h4)
  have h6: "new_round_trips empty_world
        (snd (search_code_examples memory_service demo_embedding ''pooling'' 5 None empty_world)) =
      [search_request_of [0.1, 0.3] 5 None ''match_archon_code_examples'']"
    by (simp add: search_code_examples_new_round_trips h4)
  have h7: "fst (search (client (base_strategy memory_service))
        (search_request_of [0.1, 0.3] 5 None ''match_archon_crawled_pages'') (store empty_world))
      = Inl (PyException ''ValueError'' ''Collection not found'')"
    by (simp add: demo_defs)
  have h8: "fst (search (client (base_strategy memory_service))
        (search_request_of [0.1, 0.3] 5 None ''match_archon_code_examples'') (store empty_world))
      = Inl (PyException ''ValueError'' ''Collection not found'')"
    by (simp add: demo_defs)
  note a = failure_propagation [where create_embedding = demo_embedding and q = "[]"
      and e = "PyException ''EmbeddingError'' ''empty text''" and svc = memory_service
      and mc = 5 and fm = None and w = demo_world]
  note b = failure_propagation [where create_embedding = demo_embedding and q = "''pooling''"
      and svc = memory_service and mc = 5 and fm = None and w = quiet_world]
  note c = failure_propagation [where create_embedding = demo_embedding and q = "''pooling''"
      and e = "PyException ''ValueError'' ''Collection not found''"
      and dreq = "search_request_of [0.1, 0.3] 5 None ''match_archon_crawled_pages''"
      and creq = "search_request_of [0.1, 0.3] 5 None ''match_archon_code_examples''"
      and svc = memory_service and mc = 5 and fm = None and w = empty_world]
  show ?thesis
    using h1 h2 h3 h4 h5 h6 h7 h8 a b c by auto
qed

text \<open>
  C5. The claim is that a match count \<open>\<le> 0\<close> gives an input error without a round trip to
  the store. The source has no such check: with match count 0 the in-memory store is asked
  once, with \<open>limit = 0\<close>, and the call returns the empty list, not an error.
\<close>

theorem nonpositive_match_count_counterexample:
  "vector_search (base_strategy memory_service) [0.1, 0.3] 0 None
     ''match_archon_code_examples'' demo_world =
   (Inr [], \<lparr>store = demo_store,
             round_trips = [\<lparr>collection_name = ''code'', query_vector = [0.1, 0.3],
                              limit = 0, query_filter = None\<rparr>]\<rparr>)"
  by (simp add: vector_search_def client_search_def demo_defs)

text \<open>
  C5, as the code has it: for a match count \<open>\<le> 0\<close> and an absent or empty filter,
  \<open>vector_search\<close> does no validation of its own. It makes exactly one round trip to the
  store, with \<open>limit\<close> equal to the match count, and returns what the store answers: the
  store's exception, or its hits flattened.
\<close>

theorem nonpositive_match_count_unchecked:
  assumes "mc \<le> 0"
    and "fm = None \<or> fm = Some []"
  shows "round_trips (snd (vector_search self qe mc fm table_rpc w)) =
           round_trips w @ [search_request_of qe mc None table_rpc]
       \<and> limit (search_request_of qe mc None table_rpc) = mc
       \<and> fst (vector_search self qe mc fm table_rpc w) =
           (case fst (search (client self) (search_request_of qe mc None table_rpc) (store w)) of
              Inl e \<Rightarrow> Inl e
            | Inr hits \<Rightarrow> Inr (map flatten_hit hits))"
proof -
  have trips: "round_trips (snd (vector_search self qe mc fm table_rpc w)) =
      round_trips w @ [search_request_of qe mc None table_rpc]"
    using assms(2) by (simp only: vector_search_round_trips if_True)
  show ?thesis
    using trips assms(2) by (simp add: limit_of_request vector_search_result)
qed

theorem nonpositive_match_count_unchecked_witness:
  "(-1::int) \<le> 0
   \<and> (Some [] = (None :: (string \<times> py_value) list option)
        \<or> Some [] = Some ([] :: (string \<times> py_value) list))
   \<and> round_trips (snd (vector_search (base_strategy memory_service) [0.1, 0.3] (-1) (Some [])
        ''match_archon_crawled_pages'' demo_world)) =
        [\<lparr>collection_name = ''docs'', query_vector = [0.1, 0.3], limit = -1, query_filter = None\<rparr>]
   \<and> fst (vector_search (base_strategy memory_service) [0.1, 0.3] (-1) (Some [])
        ''match_archon_crawled_pages'' demo_world) = Inr []"
proof -
  have h: "(-1::int) \<le> 0"
    by simp
  have f: "Some [] = (None :: (string \<times> py_value) list option)
        \<or> Some [] = Some ([] :: (string \<times> py_value) list)"
    by simp
  have s: "fst (search (client (base_strategy memory_service))
        (search_request_of [0.1, 0.3] (-1) None ''match_archon_crawled_pages'') (store demo_world))
      = Inr []"
    by (simp add: demo_defs)
  have r: "search_request_of [0.1, 0.3] (-1) None ''match_archon_crawled_pages'' =
      \<lparr>collection_name = ''docs'', query_vector = [0.1, 0.3], limit = -1, query_filter = None\<rparr>"
    by (simp add: demo_defs)
  show ?thesis
    using h f s r nonpositive_match_count_unchecked [OF h f,
        where self = "base_strategy memory_service" and qe = "[0.1, 0.3]"
        and table_rpc = "''match_archon_crawled_pages''" and w = demo_world]
    by (simp add: demo_world_def)
qed

text \<open>
  C6. For an absent (None) or empty filter dict no filter predicate is built, the request
  sent to the store has \<open>query_filter = None\<close>, and the result is whatever the store
  answers to that unrestricted request.
\<close>

theorem empty_filter_unrestricted:
  assumes "fm = None \<or> fm = Some []"
  shows "build_query_filter fm = Inr None
       \<and> round_trips (snd (vector_search self qe mc fm table_rpc w)) =
           round_trips w @ [\<lparr>collection_name = dict_get COLLECTION_MAP table_rpc table_rpc,
                              query_vector = qe, limit = mc, query_filter = None\<rparr>]
       \<and> fst (vector_search self qe mc fm table_rpc w) =
           (case fst (search (client self)
                   \<lparr>collection_name = dict_get COLLECTION_MAP table_rpc table_rpc,
                     query_vector = qe, limit = mc, query_filter = None\<rparr> (store w)) of
              Inl e \<Rightarrow> Inl e
            | Inr hits \<Rightarrow> Inr (map flatten_hit hits))"
proof -
  have built: "build_query_filter fm = Inr None"
    using assms by (simp only: build_query_filter_cases if_True)
  have req: "search_request_of qe mc None table_rpc =
      \<lparr>collection_name = dict_get COLLECTION_MAP table_rpc table_rpc,
        query_vector = qe, limit = mc, query_filter = None\<rparr>"
    by (simp add: search_request_of_def)
  have trips: "round_trips (snd (vector_search self qe mc fm table_rpc w)) =
      round_trips w @ [search_request_of qe mc None table_rpc]"
    using assms by (simp only: vector_search_round_trips if_True)
  have res: "fst (vector_search self qe mc fm table_rpc w) =
      (case fst (search (client self) (search_request_of qe mc None table_rpc) (store w)) of
         Inl e \<Rightarrow> Inl e | Inr hits \<Rightarrow> Inr (map flatten_hit hits))"
    using assms by (rule vector_search_result)
  show ?thesis
    using built trips res by (simp only: req)
qed

theorem empty_filter_unrestricted_witness:
  "(Some [] = (None :: (string \<times> py_value) list option) \<or> Some [] = Some ([] :: (string \<times> py_value) list))
   \<and> build_query_filter (Some []) = Inr None
   \<and> fst (vector_search (base_strategy memory_service) [0.1, 0.3] 5 (Some [])
        ''match_archon_code_examples'' demo_world) =
      Inr [flatten_hit snippet_a, flatten_hit snippet_b, flatten_hit snippet_c]"
proof -
  have h: "Some [] = (None :: (string \<times> py_value) list option) \<or> Some [] = Some ([] :: (string \<times> py_value) list)"
    by simp
  have s: "fst (search (client (base_strategy memory_service))
        \<lparr>collection_name = ''code'', query_vector = [0.1, 0.3], limit = 5, query_filter = None\<rparr>
        (store demo_world)) = Inr [snippet_a, snippet_b, snippet_c]"
    by (simp add: memory_service_def memory_client_def memory_search_def demo_world_def
        demo_store_def hit_matches_def)
  show ?thesis
    using h s empty_filter_unrestricted [OF h, where self = "base_strategy memory_service"
        and qe = "[0.1, 0.3]" and mc = 5 and table_rpc = "''match_archon_code_examples''"
        and w = demo_world]
    by (simp add: resolve_code)
qed

lemma search_documents_store:
  assumes "\<forall>req s. snd (search (client (base_strategy svc)) req s) = s"
  shows "store (snd (search_documents svc emb q mc fm w)) = store w"
  using assms by (simp add: search_documents_cases vector_search_store split: sum.splits)

lemma vector_search_depends_on_store:
  assumes "store w' = store w"
  shows "fst (vector_search self qe mc fm table_rpc w') = fst (vector_search self qe mc fm table_rpc w)"
proof (cases "fm = None \<or> fm = Some []")
  case True
  with assms show ?thesis
    by (simp add: vector_search_result)
next
  case False
  show ?thesis
    by (simp only: vector_search_filtered [OF False] fst_conv)
qed

lemma search_documents_depends_on_store:
  assumes "store w' = store w"
  shows "fst (search_documents svc emb q mc fm w') = fst (search_documents svc emb q mc fm w)"
  using vector_search_depends_on_store [OF assms]
  by (simp add: search_documents_cases split: sum.splits)

lemma memory_client_read_only: "snd (search memory_client req s) = s"
  by (simp add: memory_client_def memory_search_def split: option.splits)

text \<open>
  C7. Against a store whose search leaves the store state as it is, \<open>search_documents\<close>
  leaves the store state unchanged, and a second call with the same arguments, made after
  the first, returns the same outcome: the same records in the same order, or the same
  exception. The service object is only read; no method assigns to it.
\<close>

theorem search_idempotent:
  assumes "\<forall>req s. snd (search (client (base_strategy svc)) req s) = s"
  shows "store (snd (search_documents svc emb q mc fm w)) = store w
       \<and> fst (search_documents svc emb q mc fm (snd (search_documents svc emb q mc fm w))) =
           fst (search_documents svc emb q mc fm w)"
  using search_documents_store [OF assms] search_documents_depends_on_store by blast

theorem search_idempotent_witness:
  "(\<forall>req s. snd (search (client (base_strategy memory_service)) req s) = s)
   \<and> store (snd (search_documents memory_service demo_embedding ''pooling'' 5 None demo_world)) =
        demo_store
   \<and> fst (search_documents memory_service demo_embedding ''pooling'' 5 None demo_world) =
        Inr [flatten_hit page_a]
   \<and> fst (search_documents memory_service demo_embedding ''pooling'' 5 None
        (snd (search_documents memory_service demo_embedding ''pooling'' 5 None demo_world))) =
        Inr [flatten_hit page_a]"
proof -
  have h: "\<forall>req s. snd (search (client (base_strategy memory_service)) req s) = s"
    by (simp add: memory_service_def memory_client_read_only)
  have r: "fst (search_documents memory_service demo_embedding ''pooling'' 5 None demo_world) =
      Inr [flatten_hit page_a]"
    by (simp add: search_documents_cases vector_search_result demo_defs)
  have s: "store demo_world = demo_store"
    by (simp add: demo_world_def)
  show ?thesis
    using h r s search_idempotent [OF h, where emb = demo_embedding and q = "''pooling''"
        and mc = 5 and fm = None and w = demo_world]
    by simp
qed

text \<open>
  C8. The claim gives the alias table the keys \<open>documents-alias\<close> and \<open>code-alias\<close>.
  Neither is a key of \<open>COLLECTION_MAP\<close>.
\<close>

theorem alias_table_counterexample:
  "map_of COLLECTION_MAP ''documents-alias'' = None \<and> map_of COLLECTION_MAP ''code-alias'' = None"
  by (simp add: COLLECTION_MAP_def)

text \<open>
  C8, as the code has it: the alias table has exactly the two keys
  \<open>match_archon_crawled_pages\<close> and \<open>match_archon_code_examples\<close>, mapped to the
  collections \<open>docs\<close> and \<open>code\<close>.
\<close>

theorem alias_table:
  "dom (map_of COLLECTION_MAP) = {''match_archon_crawled_pages'', ''match_archon_code_examples''}
   \<and> map_of COLLECTION_MAP ''match_archon_crawled_pages'' = Some ''docs''
   \<and> map_of COLLECTION_MAP ''match_archon_code_examples'' = Some ''code''"
  by (auto simp: COLLECTION_MAP_def dom_map_of_conv_image_fst)


text \<open>
  C9. The store returns raw hits only when it is asked, which is the case for an absent or
  empty filter. When the payload of such a hit has the key \<open>id\<close> or \<open>score\<close>, the record
  returned for that hit carries the payload's value under that key, not the hit's own id
  or score.
\<close>

theorem payload_overrides_id_and_score:
  assumes "fm = None \<or> fm = Some []"
    and "search (client self) (search_request_of qe mc None table_rpc) (store w) = (Inr hits, s')"
    and "i < length hits"
    and "payload (hits ! i) = Some p"
    and "k = ''id'' \<or> k = ''score''"
    and "p k = Some v"
  shows "fst (vector_search self qe mc fm table_rpc w) = Inr (map flatten_hit hits)
       \<and> (map flatten_hit hits ! i) k = Some v"
proof -
  have "fst (vector_search self qe mc fm table_rpc w) = Inr (map flatten_hit hits)"
    using assms(1,2) by (simp add: vector_search_result)
  moreover have "(map flatten_hit hits ! i) k = Some v"
    using assms(3,4,6) by (simp add: flatten_hit_lookup payload_of_def)
  ultimately show ?thesis
    by simp
qed

theorem payload_overrides_id_and_score_witness:
  "search (client (base_strategy memory_service))
     (search_request_of [0.1, 0.3] 3 None ''match_archon_code_examples'') (store demo_world)
   = (Inr [snippet_a, snippet_b, snippet_c], demo_store)
   \<and> (1::nat) < length [snippet_a, snippet_b, snippet_c]
   \<and> payload ([snippet_a, snippet_b, snippet_c] ! 1) =
        Some [''language'' \<mapsto> PyStr ''go'', ''id'' \<mapsto> PyStr ''pool.go'']
   \<and> point_id ([snippet_a, snippet_b, snippet_c] ! 1) = PyInt 2
   \<and> fst (vector_search (base_strategy memory_service) [0.1, 0.3] 3 None
        ''match_archon_code_examples'' demo_world) =
      Inr [flatten_hit snippet_a, flatten_hit snippet_b, flatten_hit snippet_c]
   \<and> flatten_hit snippet_b ''id'' = Some (PyStr ''pool.go'')"
proof -
  have h0: "(None :: (string \<times> py_value) list option) = None \<or> None = Some []"
    by simp
  have h1: "search (client (base_strategy memory_service))
     (search_request_of [0.1, 0.3] 3 None ''match_archon_code_examples'') (store demo_world)
   = (Inr [snippet_a, snippet_b, snippet_c], demo_store)"
    by (simp add: demo_defs)
  have h2: "(1::nat) < length [snippet_a, snippet_b, snippet_c]"
    by simp
  have h3: "payload ([snippet_a, snippet_b, snippet_c] ! 1) =
      Some [''language'' \<mapsto> PyStr ''go'', ''id'' \<mapsto> PyStr ''pool.go'']"
    by (simp add: snippet_b_def)
  have h4: "''id'' = ''id'' \<or> ''id'' = ''score''"
    by simp
  have h5: "[''language'' \<mapsto> PyStr ''go'', ''id'' \<mapsto> PyStr ''pool.go''] ''id'' = Some (PyStr ''pool.go'')"
    by simp
  have h6: "point_id ([snippet_a, snippet_b, snippet_c] ! 1) = PyInt 2"
    by (simp add: snippet_b_def)
  show ?thesis
    using h1 h2 h3 h6 payload_overrides_id_and_score [OF h0 h1 h2 h3 h4 h5] by simp
qed

section \<open>Facts about the task service\<close>

lemma invalid_status_is_error: "is_error (invalid_status_reply status)"
  by (simp add: invalid_status_reply_def)

text \<open>
  C10. The claim is that for a valid status \<open>update_status\<close> returns an error exactly when
  no row has the given id. The only row of the demo table has id 7, so no row has the id
  \<open>2^63\<close>; for that id and the valid status \<open>done\<close> the call does not return an error
  reply: binding the id raises OverflowError, after a connection was opened.
\<close>

theorem update_status_overflow_counterexample:
  "''done'' \<in> set [''todo'', ''doing'', ''review'', ''done'']
   \<and> map row_id (archon_tasks demo_db) = [7]
   \<and> update_status ''2024-01-02T00:00:00'' 9223372036854775808 ''done'' demo_db =
        (Inl (PyException ''OverflowError'' ''Python int too large to convert to SQLite INTEGER''),
         \<lparr>archon_tasks = [demo_row], connections_opened = 1\<rparr>)"
  by (simp add: update_status_def VALID_STATUSES_def fits_int64_def overflow_error_def
      db_open_def demo_db_def demo_row_def)

text \<open>
  C10, as the code has it: for a status outside \<open>todo\<close>, \<open>doing\<close>, \<open>review\<close>, \<open>done\<close>,
  \<open>create_task\<close> and \<open>update_status\<close> return \<open>(False, {"error": ...})\<close> and the database
  is as before: no connection was opened and no row changed. For a valid status and a
  task id within the signed 64-bit range, \<open>update_status\<close> returns an error exactly when
  no row of \<open>archon_tasks\<close> has the given id, and returns success exactly when one has.
\<close>

theorem status_validation:
  "(status \<notin> set [''todo'', ''doing'', ''review'', ''done''] \<longrightarrow>
      create_task new_rowid now_created now_updated project_id title description status assignee db =
        (Inr (invalid_status_reply status), db)
      \<and> update_status now task_id status db = (Inr (invalid_status_reply status), db)
      \<and> is_error (invalid_status_reply status) \<and> \<not> fst (invalid_status_reply status))
   \<and> (status \<in> set [''todo'', ''doing'', ''review'', ''done''] \<and> fits_int64 task_id \<longrightarrow>
        (returns_error (fst (update_status now task_id status db))
           \<longleftrightarrow> (\<forall>r \<in> set (archon_tasks db). row_id r \<noteq> task_id))
        \<and> (returns_success (fst (update_status now task_id status db))
           \<longleftrightarrow> (\<exists>r \<in> set (archon_tasks db). row_id r = task_id)))"
proof (intro conjI impI)
  assume bad: "status \<notin> set [''todo'', ''doing'', ''review'', ''done'']"
  from bad show "create_task new_rowid now_created now_updated project_id title description
      status assignee db = (Inr (invalid_status_reply status), db)"
    by (simp add: create_task_def VALID_STATUSES_def)
  from bad show "update_status now task_id status db = (Inr (invalid_status_reply status), db)"
    by (simp add: update_status_def VALID_STATUSES_def)
  show "is_error (invalid_status_reply status)"
    by (rule invalid_status_is_error)
  show "\<not> fst (invalid_status_reply status)"
    by (simp add: invalid_status_reply_def)
next
  assume ok: "status \<in> set [''todo'', ''doing'', ''review'', ''done''] \<and> fits_int64 task_id"
  from ok show "returns_error (fst (update_status now task_id status db))
      \<longleftrightarrow> (\<forall>r \<in> set (archon_tasks db). row_id r \<noteq> task_id)"
    by (simp add: update_status_def VALID_STATUSES_def Let_def db_open_def filter_empty_conv)
  from ok show "returns_success (fst (update_status now task_id status db))
      \<longleftrightarrow> (\<exists>r \<in> set (archon_tasks db). row_id r = task_id)"
    by (simp add: update_status_def VALID_STATUSES_def Let_def db_open_def filter_empty_conv)
qed

theorem status_validation_witness:
  "''blocked'' \<notin> set [''todo'', ''doing'', ''review'', ''done'']
   \<and> create_task (\<lambda>rows. 8) ''t1'' ''t2'' 1 ''fix'' [] ''blocked'' ''User'' demo_db =
        (Inr (False, JObj [(''error'',
           JStr (''Invalid status '' @ [CHR 0x27] @ ''blocked'' @ [CHR 0x27]))]), demo_db)
   \<and> update_status ''t1'' 7 ''blocked'' demo_db =
        (Inr (False, JObj [(''error'',
           JStr (''Invalid status '' @ [CHR 0x27] @ ''blocked'' @ [CHR 0x27]))]), demo_db)
   \<and> ''done'' \<in> set [''todo'', ''doing'', ''review'', ''done'']
   \<and> fits_int64 7 \<and> fits_int64 8
   \<and> returns_error (fst (update_status ''t1'' 8 ''done'' demo_db))
   \<and> \<not> returns_error (fst (update_status ''t1'' 7 ''done'' demo_db))
   \<and> returns_success (fst (update_status ''t1'' 7 ''done'' demo_db))"
proof -
  have h1: "''blocked'' \<notin> set [''todo'', ''doing'', ''review'', ''done'']"
    by simp
  have h2: "''done'' \<in> set [''todo'', ''doing'', ''review'', ''done'']"
    by simp
  have h3: "fits_int64 7" "fits_int64 8"
    by (simp_all add: fits_int64_def)
  have rows: "archon_tasks demo_db = [demo_row]" "row_id demo_row = 7"
    by (simp_all add: demo_db_def demo_row_def)
  note a = status_validation [where status = "''blocked''" and new_rowid = "\<lambda>rows. 8"
      and now_created = "''t1''" and now_updated = "''t2''" and project_id = 1
      and title = "''fix''" and description = "[]" and assignee = "''User''" and db = demo_db
      and now = "''t1''" and task_id = 7]
  note b = status_validation [where status = "''done''" and db = demo_db and now = "''t1''"
      and task_id = 8]
  note c = status_validation [where status = "''done''" and db = demo_db and now = "''t1''"
      and task_id = 7]
  show ?thesis
    using h1 h2 h3 a b c by (simp add: rows invalid_status_reply_def)
qed

end
